theory Spec2Isabelle
  imports Complex_Main "HOL-Library.AList"
begin

section \<open>Data model (models.py)\<close>

text \<open>
  Python floats are modelled as exact reals: every arithmetic step of the scoring
  engine is the exact operation, and \<open>round(x, 3)\<close> is rounding to the nearest
  multiple of \<open>1/1000\<close> with ties going to the even multiple. Strings are byte
  lists (UTF-8); dictionaries are association lists in insertion order, updated
  with \<open>AList.update\<close> (an existing key keeps its position, a new key goes last),
  which is the iteration order of a Python \<open>dict\<close>.
\<close>

datatype error = ValueError string | ZeroDivisionError

record Indicator =
  ind_id :: string
  ind_name :: string
  block :: string
  ind_value :: real
  min_value :: real
  max_value :: real
  weight :: real
  is_benefit :: bool

record BlockWeights =
  alpha_R :: real
  alpha_P :: real
  alpha_O :: real
  alpha_I :: real

record EvaluationRequest =
  tashkilot :: "string option"
  yil :: "int option"
  indicators :: "Indicator list"
  block_weights :: BlockWeights

record BlockIndex =
  bi_block :: string
  bi_value :: real
  bi_indicators :: "(string \<times> real) list"

record EvaluationResult =
  res_tashkilot :: "string option"
  res_yil :: "int option"
  total_index :: real
  blocks :: "BlockIndex list"
  level :: "string option"
  weakest_block :: "string option"
  strongest_block :: "string option"

section \<open>Python primitives used by core.py\<close>

text \<open>Float division raises \<open>ZeroDivisionError\<close> on a zero divisor.\<close>

definition py_truediv :: "real \<Rightarrow> real \<Rightarrow> error + real" where
  "py_truediv a b = (if b = 0 then Inl ZeroDivisionError else Inr (a / b))"

text \<open>Nearest integer, a tie going to the even neighbour.\<close>

definition round_half_even :: "real \<Rightarrow> int" where
  "round_half_even y =
     (let f = \<lfloor>y\<rfloor>; d = y - of_int f
      in if d < 1 / 2 then f
         else if 1 / 2 < d then f + 1
         else if even f then f else f + 1)"

text \<open>\<open>round(x, n)\<close> for a non-negative number of digits \<open>n\<close>.\<close>

definition py_round :: "real \<Rightarrow> nat \<Rightarrow> real" where
  "py_round x n = of_int (round_half_even (x * 10 ^ n)) / 10 ^ n"

text \<open>\<open>d.get(k, default)\<close>.\<close>

definition dict_get :: "('k \<times> 'v) list \<Rightarrow> 'k \<Rightarrow> 'v \<Rightarrow> 'v" where
  "dict_get d k dflt = (case map_of d k of None \<Rightarrow> dflt | Some v \<Rightarrow> v)"

text \<open>
  \<open>min(d, key=d.get)\<close> and \<open>max(d, key=d.get)\<close> on a non-empty dictionary: a
  linear scan over the items in insertion order that starts with the first item
  and replaces the current best only when the next value is strictly smaller
  (strictly greater for \<open>max\<close>). The scan carries the best key with its value,
  which is what \<open>d.get\<close> returns for a key of \<open>d\<close>.
\<close>

fun min_scan :: "string \<times> real \<Rightarrow> (string \<times> real) list \<Rightarrow> string" where
  "min_scan (bk, bv) [] = bk"
| "min_scan (bk, bv) ((k, v) # rest) =
     (if v < bv then min_scan (k, v) rest else min_scan (bk, bv) rest)"

fun max_scan :: "string \<times> real \<Rightarrow> (string \<times> real) list \<Rightarrow> string" where
  "max_scan (bk, bv) [] = bk"
| "max_scan (bk, bv) ((k, v) # rest) =
     (if bv < v then max_scan (k, v) rest else max_scan (bk, bv) rest)"

section \<open>The scoring engine (core.py)\<close>

subsection \<open>normalize\<close>

definition normalize :: "Indicator \<Rightarrow> error + real" where
  "normalize ind =
     (if max_value ind = min_value ind then Inr 0
      else
        (case py_truediv (ind_value ind - min_value ind) (max_value ind - min_value ind) of
           Inl e \<Rightarrow> Inl e
         | Inr z \<Rightarrow>
             (let z' = (if \<not> is_benefit ind then 1 - z else z)
              in Inr (max 0 (min 1 z')))))"

subsection \<open>classify\_level\<close>

text \<open>The four labels; the second one holds U+2018 (bytes E2 80 98) after its first letter.\<close>

definition level_past :: string where
  "level_past = ''Past''"

definition level_ortacha :: string where
  "level_ortacha = CHR ''O'' # CHR 0xE2 # CHR 0x80 # CHR 0x98 # ''rtacha''"

definition level_yuqori :: string where
  "level_yuqori = ''Yuqori''"

definition level_juda_yuqori :: string where
  "level_juda_yuqori = ''Juda yuqori''"

definition classify_level :: "real \<Rightarrow> string" where
  "classify_level t =
     (if t < 0.25 then level_past
      else if t < 0.50 then level_ortacha
      else if t < 0.75 then level_yuqori
      else level_juda_yuqori)"

subsection \<open>evaluate\<close>

text \<open>Step 1: the dictionary of groups and the grouping loop with its raise.\<close>

definition block_groups_init :: "(string \<times> Indicator list) list" where
  "block_groups_init = [(''R'', []), (''P'', []), (''O'', []), (''I'', [])]"

definition unknown_block_msg :: "string \<Rightarrow> string" where
  "unknown_block_msg code = ''Noma'' @ [CHR 0x27] @ ''lum blok kodi: '' @ code"

fun group_loop ::
  "Indicator list \<Rightarrow> (string \<times> Indicator list) list \<Rightarrow> error + (string \<times> Indicator list) list"
where
  "group_loop [] block_groups = Inr block_groups"
| "group_loop (ind # rest) block_groups =
     (case map_of block_groups (block ind) of
        None \<Rightarrow> Inl (ValueError (unknown_block_msg (block ind)))
      | Some grp \<Rightarrow> group_loop rest (AList.update (block ind) (grp @ [ind]) block_groups))"

text \<open>Step 2, inner loop: normalized values, weighted sum and weight sum of one block.\<close>

fun indicator_loop ::
  "Indicator list \<Rightarrow> (string \<times> real) list \<times> real \<times> real
   \<Rightarrow> error + ((string \<times> real) list \<times> real \<times> real)"
where
  "indicator_loop [] acc = Inr acc"
| "indicator_loop (ind # rest) (norm_values, block_sum, weight_sum) =
     (case normalize ind of
        Inl e \<Rightarrow> Inl e
      | Inr z \<Rightarrow>
          indicator_loop rest
            (AList.update (ind_id ind) z norm_values, block_sum + z * weight ind,
             weight_sum + weight ind))"

text \<open>Step 2, outer loop: one \<open>BlockIndex\<close> and one unrounded value per block.\<close>

fun block_loop ::
  "(string \<times> Indicator list) list \<Rightarrow> BlockIndex list \<times> (string \<times> real) list
   \<Rightarrow> error + (BlockIndex list \<times> (string \<times> real) list)"
where
  "block_loop [] acc = Inr acc"
| "block_loop ((block_code, inds) # rest) (block_indices, block_values) =
     (if inds = [] then
        block_loop rest
          (block_indices @ [\<lparr>bi_block = block_code, bi_value = 0, bi_indicators = []\<rparr>],
           AList.update block_code 0 block_values)
      else
        (case indicator_loop inds ([], 0, 0) of
           Inl e \<Rightarrow> Inl e
         | Inr (norm_values, block_sum, weight_sum) \<Rightarrow>
             (case (if weight_sum > 0 then py_truediv block_sum weight_sum else Inr 0) of
                Inl e \<Rightarrow> Inl e
              | Inr block_index_value \<Rightarrow>
                  block_loop rest
                    (block_indices @
                       [\<lparr>bi_block = block_code, bi_value = py_round block_index_value 3,
                         bi_indicators = norm_values\<rparr>],
                     AList.update block_code block_index_value block_values))))"

text \<open>Step 3: the weighted sum of the unrounded block values.\<close>

definition total_index_raw :: "BlockWeights \<Rightarrow> (string \<times> real) list \<Rightarrow> real" where
  "total_index_raw bw block_values =
     alpha_R bw * dict_get block_values ''R'' 0
     + alpha_P bw * dict_get block_values ''P'' 0
     + alpha_O bw * dict_get block_values ''O'' 0
     + alpha_I bw * dict_get block_values ''I'' 0"

text \<open>Step 5: the weakest and the strongest block, empty strings for an empty dictionary.\<close>

definition weakest_of :: "(string \<times> real) list \<Rightarrow> string" where
  "weakest_of block_values =
     (case block_values of [] \<Rightarrow> [] | first # rest \<Rightarrow> min_scan first rest)"

definition strongest_of :: "(string \<times> real) list \<Rightarrow> string" where
  "strongest_of block_values =
     (case block_values of [] \<Rightarrow> [] | first # rest \<Rightarrow> max_scan first rest)"

text \<open>\<open>s or None\<close> for a string \<open>s\<close>.\<close>

definition or_None :: "string \<Rightarrow> string option" where
  "or_None s = (if s = [] then None else Some s)"

definition evaluate :: "EvaluationRequest \<Rightarrow> error + EvaluationResult" where
  "evaluate req =
     (case group_loop (indicators req) block_groups_init of
        Inl e \<Rightarrow> Inl e
      | Inr block_groups \<Rightarrow>
          (case block_loop block_groups ([], []) of
             Inl e \<Rightarrow> Inl e
           | Inr (block_indices, block_values) \<Rightarrow>
               (let total = py_round (total_index_raw (block_weights req) block_values) 3
                in Inr \<lparr>res_tashkilot = tashkilot req, res_yil = yil req,
                         total_index = total, blocks = block_indices,
                         level = Some (classify_level total),
                         weakest_block = or_None (weakest_of block_values),
                         strongest_block = or_None (strongest_of block_values)\<rparr>)))"


section \<open>Notions the properties are stated with\<close>

text \<open>
  The four recognized codes, the indicators of one category, the normalized value in
  closed form (proved equal to what \<open>normalize\<close> returns), the weighted mean of a
  category before rounding, and the entry and the dictionaries that \<open>evaluate\<close> builds
  from them.
\<close>

definition known_block :: "string \<Rightarrow> bool" where
  "known_block c = (c = ''R'' \<or> c = ''P'' \<or> c = ''O'' \<or> c = ''I'')"

definition category_indicators :: "string \<Rightarrow> Indicator list \<Rightarrow> Indicator list" where
  "category_indicators c inds = filter (\<lambda>i. block i = c) inds"

definition unit_score :: "Indicator \<Rightarrow> real" where
  "unit_score ind =
     (if max_value ind = min_value ind then 0
      else
        (let z = (ind_value ind - min_value ind) / (max_value ind - min_value ind)
         in max 0 (min 1 (if is_benefit ind then z else 1 - z))))"

definition weighted_sum :: "Indicator list \<Rightarrow> real" where
  "weighted_sum inds = sum_list (map (\<lambda>i. unit_score i * weight i) inds)"

definition weight_total :: "Indicator list \<Rightarrow> real" where
  "weight_total inds = sum_list (map weight inds)"

definition category_mean :: "Indicator list \<Rightarrow> real" where
  "category_mean inds =
     (if inds = [] then 0
      else if 0 < weight_total inds then weighted_sum inds / weight_total inds
      else 0)"

definition norm_dict :: "Indicator list \<Rightarrow> (string \<times> real) list" where
  "norm_dict inds = fold (\<lambda>i. AList.update (ind_id i) (unit_score i)) inds []"

definition block_entry :: "string \<Rightarrow> Indicator list \<Rightarrow> BlockIndex" where
  "block_entry c inds =
     \<lparr>bi_block = c, bi_value = py_round (category_mean inds) 3, bi_indicators = norm_dict inds\<rparr>"

definition block_values_of :: "Indicator list \<Rightarrow> (string \<times> real) list" where
  "block_values_of inds =
     [(''R'', category_mean (category_indicators ''R'' inds)),
      (''P'', category_mean (category_indicators ''P'' inds)),
      (''O'', category_mean (category_indicators ''O'' inds)),
      (''I'', category_mean (category_indicators ''I'' inds))]"

definition block_indices_of :: "Indicator list \<Rightarrow> BlockIndex list" where
  "block_indices_of inds =
     [block_entry ''R'' (category_indicators ''R'' inds),
      block_entry ''P'' (category_indicators ''P'' inds),
      block_entry ''O'' (category_indicators ''O'' inds),
      block_entry ''I'' (category_indicators ''I'' inds)]"




text \<open>
  The first entry, in list order, whose value attains the minimum (the maximum) of all
  values of the list.
\<close>

definition attains_min :: "(string \<times> real) list \<Rightarrow> string \<times> real \<Rightarrow> bool" where
  "attains_min kvs kv = list_all (\<lambda>kv'. snd kv \<le> snd kv') kvs"

definition attains_max :: "(string \<times> real) list \<Rightarrow> string \<times> real \<Rightarrow> bool" where
  "attains_max kvs kv = list_all (\<lambda>kv'. snd kv' \<le> snd kv) kvs"

definition first_attaining_min :: "(string \<times> real) list \<Rightarrow> string option" where
  "first_attaining_min kvs = map_option fst (find (attains_min kvs) kvs)"

definition first_attaining_max :: "(string \<times> real) list \<Rightarrow> string option" where
  "first_attaining_max kvs = map_option fst (find (attains_max kvs) kvs)"

section \<open>Example requests\<close>

definition mk_indicator ::
  "string \<Rightarrow> string \<Rightarrow> real \<Rightarrow> real \<Rightarrow> real \<Rightarrow> real \<Rightarrow> bool \<Rightarrow> Indicator" where
  "mk_indicator i b v lo hi w ben =
     \<lparr>ind_id = i, ind_name = i, block = b, ind_value = v, min_value = lo, max_value = hi,
      weight = w, is_benefit = ben\<rparr>"

definition equal_weights :: BlockWeights where
  "equal_weights = \<lparr>alpha_R = 0.25, alpha_P = 0.25, alpha_O = 0.25, alpha_I = 0.25\<rparr>"

definition scenario_request :: EvaluationRequest where
  "scenario_request =
     \<lparr>tashkilot = None, yil = None,
      indicators =
        [mk_indicator ''R1'' ''R'' 80 0 100 1 True, mk_indicator ''P1'' ''P'' 20 0 100 1 True,
         mk_indicator ''O1'' ''O'' 50 0 100 1 True, mk_indicator ''I1'' ''I'' 0 0 100 1 True],
      block_weights = equal_weights\<rparr>"

definition unknown_code_request :: EvaluationRequest where
  "unknown_code_request =
     \<lparr>tashkilot = None, yil = None,
      indicators =
        [mk_indicator ''R1'' ''R'' 80 0 100 1 True, mk_indicator ''X1'' ''X'' 20 0 100 1 True,
         mk_indicator ''Y1'' ''Y'' 50 0 100 1 True],
      block_weights = equal_weights\<rparr>"





definition mixed_request :: EvaluationRequest where
  "mixed_request =
     \<lparr>tashkilot = None, yil = None,
      indicators =
        [mk_indicator ''R1'' ''R'' 50 0 100 0.2 True, mk_indicator ''P1'' ''P'' 70 0 100 0 True,
         mk_indicator ''R2'' ''R'' 0 0 100 0.1 False],
      block_weights = equal_weights\<rparr>"

section \<open>The loops in closed form\<close>

lemma normalize_unit_score: "normalize ind = Inr (unit_score ind)"
  by (simp add: normalize_def unit_score_def py_truediv_def Let_def)

lemma indicator_loop_closed:
  "indicator_loop inds (nv, bs, ws) =
     Inr (fold (\<lambda>i. AList.update (ind_id i) (unit_score i)) inds nv,
          bs + weighted_sum inds, ws + weight_total inds)"
  by (induction inds arbitrary: nv bs ws)
     (simp_all add: normalize_unit_score weighted_sum_def weight_total_def algebra_simps)

lemma py_round_zero: "py_round 0 n = 0"
  by (simp add: py_round_def round_half_even_def)

lemma block_loop_step:
  "block_loop ((c, inds) # rest) (bis, bvs) =
     block_loop rest (bis @ [block_entry c inds], AList.update c (category_mean inds) bvs)"
  by (cases "inds = []")
     (simp_all add: indicator_loop_closed py_truediv_def block_entry_def category_mean_def
        norm_dict_def py_round_zero)

lemma group_loop_find:
  "group_loop inds [(''R'', a), (''P'', b), (''O'', c), (''I'', d)] =
     (case find (\<lambda>i. \<not> known_block (block i)) inds of
        Some i \<Rightarrow> Inl (ValueError (unknown_block_msg (block i)))
      | None \<Rightarrow>
          Inr [(''R'', a @ category_indicators ''R'' inds),
               (''P'', b @ category_indicators ''P'' inds),
               (''O'', c @ category_indicators ''O'' inds),
               (''I'', d @ category_indicators ''I'' inds)])"
proof (induction inds arbitrary: a b c d)
  case Nil
  show ?case by (simp add: category_indicators_def)
next
  case (Cons i inds)
  show ?case
  proof (cases "known_block (block i)")
    case False
    then show ?thesis by (simp add: known_block_def)
  next
    case True
    then consider "block i = ''R''" | "block i = ''P''" | "block i = ''O''" | "block i = ''I''"
      by (auto simp: known_block_def)
    then show ?thesis
    proof cases
      case 1 with True show ?thesis by (simp add: Cons.IH category_indicators_def split: option.splits)
    next
      case 2 with True show ?thesis by (simp add: Cons.IH category_indicators_def split: option.splits)
    next
      case 3 with True show ?thesis by (simp add: Cons.IH category_indicators_def split: option.splits)
    next
      case 4 with True show ?thesis by (simp add: Cons.IH category_indicators_def split: option.splits)
    qed
  qed
qed

lemma block_loop_four:
  "block_loop [(''R'', gr), (''P'', gp), (''O'', go), (''I'', gi)] ([], []) =
     Inr ([block_entry ''R'' gr, block_entry ''P'' gp, block_entry ''O'' go, block_entry ''I'' gi],
          [(''R'', category_mean gr), (''P'', category_mean gp),
           (''O'', category_mean go), (''I'', category_mean gi)])"
  by (simp add: block_loop_step del: block_loop.simps(2))

lemma evaluate_unknown:
  assumes "find (\<lambda>i. \<not> known_block (block i)) (indicators req) = Some i"
  shows "evaluate req = Inl (ValueError (unknown_block_msg (block i)))"
  using assms by (simp add: evaluate_def block_groups_init_def group_loop_find)

lemma evaluate_known:
  assumes "find (\<lambda>i. \<not> known_block (block i)) (indicators req) = None"
  shows "evaluate req =
     Inr \<lparr>res_tashkilot = tashkilot req, res_yil = yil req,
          total_index = py_round (total_index_raw (block_weights req) (block_values_of (indicators req))) 3,
          blocks = block_indices_of (indicators req),
          level = Some (classify_level
            (py_round (total_index_raw (block_weights req) (block_values_of (indicators req))) 3)),
          weakest_block = or_None (weakest_of (block_values_of (indicators req))),
          strongest_block = or_None (strongest_of (block_values_of (indicators req)))\<rparr>"
  using assms
  by (simp add: evaluate_def block_groups_init_def group_loop_find block_loop_four
      block_values_of_def block_indices_of_def Let_def del: block_loop.simps(2))


section \<open>Rounding\<close>



section \<open>The extremal scans on four blocks\<close>

lemma weakest_four:
  "or_None (weakest_of [(''R'', a), (''P'', b), (''O'', c), (''I'', d)]) =
     first_attaining_min [(''R'', a), (''P'', b), (''O'', c), (''I'', d)]"
  by (simp add: or_None_def weakest_of_def first_attaining_min_def attains_min_def) linarith

lemma strongest_four:
  "or_None (strongest_of [(''R'', a), (''P'', b), (''O'', c), (''I'', d)]) =
     first_attaining_max [(''R'', a), (''P'', b), (''O'', c), (''I'', d)]"
  by (simp add: or_None_def strongest_of_def first_attaining_max_def attains_max_def) linarith

lemma first_min_four_known:
  "\<exists>w. first_attaining_min [(''R'', a), (''P'', b), (''O'', c), (''I'', d)] = Some w \<and> known_block w"
  by (simp add: first_attaining_min_def attains_min_def known_block_def) linarith

lemma first_max_four_known:
  "\<exists>w. first_attaining_max [(''R'', a), (''P'', b), (''O'', c), (''I'', d)] = Some w \<and> known_block w"
  by (simp add: first_attaining_max_def attains_max_def known_block_def) linarith

section \<open>Example runs\<close>

lemmas example_defs = mk_indicator_def equal_weights_def

lemma level_labels_distinct:
  "level_past \<noteq> level_ortacha" "level_past \<noteq> level_yuqori" "level_past \<noteq> level_juda_yuqori"
  "level_ortacha \<noteq> level_yuqori" "level_ortacha \<noteq> level_juda_yuqori"
  "level_yuqori \<noteq> level_juda_yuqori"
  by (simp_all add: level_past_def level_ortacha_def level_yuqori_def level_juda_yuqori_def)

lemma scenario_eval:
  "evaluate scenario_request =
     Inr \<lparr>res_tashkilot = None, res_yil = None, total_index = 0.375,
          blocks =
            [\<lparr>bi_block = ''R'', bi_value = 0.8, bi_indicators = [(''R1'', 0.8)]\<rparr>,
             \<lparr>bi_block = ''P'', bi_value = 0.2, bi_indicators = [(''P1'', 0.2)]\<rparr>,
             \<lparr>bi_block = ''O'', bi_value = 0.5, bi_indicators = [(''O1'', 0.5)]\<rparr>,
             \<lparr>bi_block = ''I'', bi_value = 0, bi_indicators = [(''I1'', 0)]\<rparr>],
          level = Some level_ortacha, weakest_block = Some ''I'', strongest_block = Some ''R''\<rparr>"
  by (simp add: evaluate_def scenario_request_def example_defs block_groups_init_def
      normalize_def py_truediv_def py_round_def round_half_even_def total_index_raw_def
      dict_get_def classify_level_def weakest_of_def strongest_of_def or_None_def)

lemma find_None_known:
  "(find (\<lambda>i. \<not> known_block (block i)) inds = None) = (\<forall>i \<in> set inds. known_block (block i))"
  by (auto simp: find_None_iff)

lemma find_Some_unknown:
  "find (\<lambda>i. \<not> known_block (block i)) inds = Some i \<Longrightarrow> i \<in> set inds \<and> \<not> known_block (block i)"
  by (auto simp: find_Some_iff)

lemma evaluate_cases:
  "evaluate req =
     (case find (\<lambda>i. \<not> known_block (block i)) (indicators req) of
        Some i \<Rightarrow> Inl (ValueError (unknown_block_msg (block i)))
      | None \<Rightarrow>
          Inr \<lparr>res_tashkilot = tashkilot req, res_yil = yil req,
               total_index =
                 py_round (total_index_raw (block_weights req) (block_values_of (indicators req))) 3,
               blocks = block_indices_of (indicators req),
               level = Some (classify_level
                 (py_round (total_index_raw (block_weights req) (block_values_of (indicators req))) 3)),
               weakest_block = or_None (weakest_of (block_values_of (indicators req))),
               strongest_block = or_None (strongest_of (block_values_of (indicators req)))\<rparr>)"
  by (cases "find (\<lambda>i. \<not> known_block (block i)) (indicators req)")
     (simp_all add: evaluate_known evaluate_unknown)

lemma group_loop_error:
  "evaluate req = Inl e \<Longrightarrow> group_loop (indicators req) block_groups_init = Inl e"
  by (auto simp: evaluate_cases block_groups_init_def group_loop_find split: option.splits)

lemmas eval_defs = evaluate_def example_defs block_groups_init_def
  normalize_def py_truediv_def py_round_def round_half_even_def total_index_raw_def
  dict_get_def classify_level_def weakest_of_def strongest_of_def or_None_def Let_def





lemma evaluate_InrD:
  assumes "evaluate req = Inr res"
  shows "res =
     \<lparr>res_tashkilot = tashkilot req, res_yil = yil req,
      total_index =
        py_round (total_index_raw (block_weights req) (block_values_of (indicators req))) 3,
      blocks = block_indices_of (indicators req),
      level = Some (classify_level
        (py_round (total_index_raw (block_weights req) (block_values_of (indicators req))) 3)),
      weakest_block = or_None (weakest_of (block_values_of (indicators req))),
      strongest_block = or_None (strongest_of (block_values_of (indicators req)))\<rparr>"
  using assms by (auto simp: evaluate_cases split: option.splits)







lemma mixed_eval:
  "evaluate mixed_request =
     Inr \<lparr>res_tashkilot = None, res_yil = None, total_index = 0.167,
          blocks =
            [\<lparr>bi_block = ''R'', bi_value = 0.667, bi_indicators = [(''R1'', 0.5), (''R2'', 1)]\<rparr>,
             \<lparr>bi_block = ''P'', bi_value = 0, bi_indicators = [(''P1'', 0.7)]\<rparr>,
             \<lparr>bi_block = ''O'', bi_value = 0, bi_indicators = []\<rparr>,
             \<lparr>bi_block = ''I'', bi_value = 0, bi_indicators = []\<rparr>],
          level = Some level_past, weakest_block = Some ''P'', strongest_block = Some ''R''\<rparr>"
  by (simp add: mixed_request_def eval_defs)





section \<open>The properties\<close>








text \<open>
  C4. \<open>evaluate\<close> fails exactly when some indicator carries a code other than R, P, O
  and I. The failure is the \<open>ValueError\<close> whose message ends with the code of such an
  indicator, it is raised by the grouping loop, before any block is computed, and the
  outcome is then an error and no result. A request whose codes are all recognized
  yields a result.
\<close>

theorem C4_unrecognized_category:
  "((\<exists>e. evaluate req = Inl e) = (\<exists>i \<in> set (indicators req). \<not> known_block (block i)))
   \<and> (\<forall>e. evaluate req = Inl e \<longrightarrow>
         (\<exists>i \<in> set (indicators req). \<not> known_block (block i)
            \<and> e = ValueError (unknown_block_msg (block i)))
         \<and> group_loop (indicators req) block_groups_init = Inl e)
   \<and> ((\<forall>i \<in> set (indicators req). known_block (block i)) \<longrightarrow> (\<exists>res. evaluate req = Inr res))"
proof (cases "find (\<lambda>i. \<not> known_block (block i)) (indicators req)")
  case None
  then have "\<forall>i \<in> set (indicators req). known_block (block i)"
    by (simp add: find_None_known)
  with None show ?thesis by (simp add: evaluate_cases)
next
  case (Some i)
  then have bad: "i \<in> set (indicators req)" "\<not> known_block (block i)"
    by (simp_all add: find_Some_unknown)
  have ev: "evaluate req = Inl (ValueError (unknown_block_msg (block i)))"
    using Some by (rule evaluate_unknown)
  then have "group_loop (indicators req) block_groups_init =
      Inl (ValueError (unknown_block_msg (block i)))"
    by (rule group_loop_error)
  with ev bad show ?thesis by auto
qed

text \<open>A request with the codes X and Y fails on X, the first of them; the scenario request succeeds.\<close>

theorem C4_witness:
  "evaluate unknown_code_request = Inl (ValueError (unknown_block_msg ''X''))
   \<and> (\<exists>res. evaluate scenario_request = Inr res)"
proof -
  have bad: "\<exists>e. evaluate unknown_code_request = Inl e"
    using C4_unrecognized_category [of unknown_code_request]
    by (simp add: unknown_code_request_def example_defs known_block_def)
  have good: "\<exists>res. evaluate scenario_request = Inr res"
    using C4_unrecognized_category [of scenario_request]
    by (simp add: scenario_request_def example_defs known_block_def)
  from bad obtain e where e: "evaluate unknown_code_request = Inl e" by blast
  then have "group_loop (indicators unknown_code_request) block_groups_init = Inl e"
    using C4_unrecognized_category [of unknown_code_request] by blast
  then have "e = ValueError (unknown_block_msg ''X'')"
    by (simp add: unknown_code_request_def example_defs block_groups_init_def)
  with e good show ?thesis by simp
qed

text \<open>
  C5. \<open>classify_level\<close> returns the first label exactly below 0.25, the second exactly
  on \<open>[0.25, 0.50)\<close>, the third exactly on \<open>[0.50, 0.75)\<close> and the fourth exactly from
  0.75 upwards, so that every total gets one tier; the three boundaries belong to the
  upper tier, and negative totals to the first.
\<close>

theorem C5_tiers:
  "(classify_level t = level_past) = (t < 0.25)
   \<and> (classify_level t = level_ortacha) = (0.25 \<le> t \<and> t < 0.50)
   \<and> (classify_level t = level_yuqori) = (0.50 \<le> t \<and> t < 0.75)
   \<and> (classify_level t = level_juda_yuqori) = (0.75 \<le> t)
   \<and> classify_level 0.25 = level_ortacha
   \<and> classify_level 0.50 = level_yuqori
   \<and> classify_level 0.75 = level_juda_yuqori
   \<and> classify_level 0.249999 = level_past
   \<and> classify_level (- 1) = level_past"
  using level_labels_distinct by (auto simp: classify_level_def)




text \<open>
  C7. The scenario request (one benefit indicator per category with bounds 0 and 100 and
  weight 1, values 80, 20, 50 and 0, category weights 0.25) yields the normalized values
  0.8, 0.2, 0.5 and 0, the overall index 0.375, the second tier, I as weakest and R as
  strongest category.
\<close>

theorem C7_end_to_end:
  "\<exists>res. evaluate scenario_request = Inr res
     \<and> map bi_block (blocks res) = [''R'', ''P'', ''O'', ''I'']
     \<and> map bi_indicators (blocks res) =
         [[(''R1'', 0.8)], [(''P1'', 0.2)], [(''O1'', 0.5)], [(''I1'', 0.0)]]
     \<and> total_index res = 0.375
     \<and> level res = Some level_ortacha
     \<and> weakest_block res = Some ''I''
     \<and> strongest_block res = Some ''R''"
  by (simp add: scenario_eval)

text \<open>
  C8. For an indicator whose maximum equals its minimum, \<open>normalize\<close> returns exactly 0,
  as a value and not as an error, for either polarity and any raw value.
\<close>

theorem C8_degenerate_bounds:
  assumes "max_value ind = min_value ind"
  shows "normalize ind = Inr 0"
  using assms by (simp add: normalize_def)

text \<open>Equal bounds with a benefit and with a cost indicator.\<close>

theorem C8_witness:
  "normalize (mk_indicator ''d'' ''P'' 7 5 5 1 True) = Inr 0
   \<and> normalize (mk_indicator ''d'' ''P'' (- 3) 5 5 1 False) = Inr 0"
  using C8_degenerate_bounds [of "mk_indicator ''d'' ''P'' 7 5 5 1 True"]
    C8_degenerate_bounds [of "mk_indicator ''d'' ''P'' (- 3) 5 5 1 False"]
  by (simp add: mk_indicator_def)


text \<open>
  C10. In every result of a successful run the weakest and the strongest category are
  present and each is one of R, P, O and I: the dictionary of block values that the scan
  runs over always has the four keys, so its empty case does not arise.
\<close>

theorem C10_extremes_present:
  assumes "evaluate req = Inr res"
  shows "(\<exists>w s. weakest_block res = Some w \<and> strongest_block res = Some s
            \<and> known_block w \<and> known_block s)
       \<and> (\<exists>groups indices block_values.
             group_loop (indicators req) block_groups_init = Inr groups
             \<and> block_loop groups ([], []) = Inr (indices, block_values)
             \<and> map fst block_values = [''R'', ''P'', ''O'', ''I''])"
proof -
  note res = evaluate_InrD [OF assms]
  have ws:
    "weakest_block res = or_None (weakest_of (block_values_of (indicators req)))"
    "strongest_block res = or_None (strongest_of (block_values_of (indicators req)))"
    by (simp_all add: res)
  obtain w where w: "first_attaining_min (block_values_of (indicators req)) = Some w" "known_block w"
    unfolding block_values_of_def using first_min_four_known by blast
  obtain s where s: "first_attaining_max (block_values_of (indicators req)) = Some s" "known_block s"
    unfolding block_values_of_def using first_max_four_known by blast
  from w s have present: "\<exists>w s. weakest_block res = Some w \<and> strongest_block res = Some s
      \<and> known_block w \<and> known_block s"
    using ws by (simp add: block_values_of_def weakest_four strongest_four)
  from assms have known: "find (\<lambda>i. \<not> known_block (block i)) (indicators req) = None"
    by (auto simp: evaluate_cases split: option.splits)
  let ?groups = "[(''R'', category_indicators ''R'' (indicators req)),
                  (''P'', category_indicators ''P'' (indicators req)),
                  (''O'', category_indicators ''O'' (indicators req)),
                  (''I'', category_indicators ''I'' (indicators req))]"
  have g: "group_loop (indicators req) block_groups_init = Inr ?groups"
    using known by (simp add: block_groups_init_def group_loop_find)
  have b: "block_loop ?groups ([], []) =
      Inr (block_indices_of (indicators req), block_values_of (indicators req))"
    by (simp only: block_loop_four block_indices_of_def block_values_of_def)
  have k: "map fst (block_values_of (indicators req)) = [''R'', ''P'', ''O'', ''I'']"
    by (simp add: block_values_of_def)
  have "\<exists>groups indices block_values.
      group_loop (indicators req) block_groups_init = Inr groups
      \<and> block_loop groups ([], []) = Inr (indices, block_values)
      \<and> map fst block_values = [''R'', ''P'', ''O'', ''I'']"
  proof (intro exI conjI)
    show "group_loop (indicators req) block_groups_init = Inr ?groups"
      by (rule g)
    show "block_loop ?groups ([], []) =
        Inr (block_indices_of (indicators req), block_values_of (indicators req))"
      by (rule b)
    show "map fst (block_values_of (indicators req)) = [''R'', ''P'', ''O'', ''I'']"
      by (rule k)
  qed
  with present show ?thesis by (rule conjI)
qed

text \<open>The request with two empty categories still reports both extremes.\<close>

theorem C10_witness:
  "\<exists>w s. weakest_block
            \<lparr>res_tashkilot = None, res_yil = None, total_index = 0.167,
             blocks =
               [\<lparr>bi_block = ''R'', bi_value = 0.667,
                  bi_indicators = [(''R1'', 0.5), (''R2'', 1)]\<rparr>,
                \<lparr>bi_block = ''P'', bi_value = 0, bi_indicators = [(''P1'', 0.7)]\<rparr>,
                \<lparr>bi_block = ''O'', bi_value = 0, bi_indicators = []\<rparr>,
                \<lparr>bi_block = ''I'', bi_value = 0, bi_indicators = []\<rparr>],
             level = Some level_past, weakest_block = Some ''P'',
             strongest_block = Some ''R''\<rparr> = Some w
        \<and> w = ''P'' \<and> s = ''R'' \<and> known_block w \<and> known_block s"
  using C10_extremes_present [OF mixed_eval] by auto

end
